theory Spec2Isabelle
  imports Main
begin

section \<open>The loadable plugin placeholder\<close>

text \<open>
  A shallow embedding of
  \<^verbatim>\<open>components/plugins/renderer/loadable_plugin_placeholder.cc\<close>.
  The fields of \<^verbatim>\<open>LoadablePluginPlaceholder\<close> and the two base-class
  accessors the file reads (\<^verbatim>\<open>plugin()\<close>, \<^verbatim>\<open>hidden()\<close>) form
  one record. Every call that leaves the class (container, throttler, metrics,
  script execution, render frame) appends an entry to the field \<open>trace\<close>, in
  program order. What the host answers to a query is a field of the record
  \<open>env\<close>. Assertions are those of a build with \<^verbatim>\<open>DCHECK\<close> enabled:
  a failed \<^verbatim>\<open>DCHECK\<close>, \<^verbatim>\<open>CHECK\<close> or \<^verbatim>\<open>NOTREACHED\<close> and a call
  through a null pointer end the run with \<open>Inl\<close>.
\<close>

subsection \<open>Data\<close>

type_synonym web_plugin = nat
  \<comment> \<open>a \<^verbatim>\<open>blink::WebPlugin*\<close> other than the placeholder's own plugin\<close>

type_synonym rect = "int \<times> int \<times> int \<times> int"
  \<comment> \<open>\<^verbatim>\<open>gfx::Rect\<close>: x, y, width, height\<close>

datatype PowerSaverUnthrottleMethod =
    UNTHROTTLE_METHOD_DO_NOT_RECORD
  | UNTHROTTLE_METHOD_NEVER
  | UNTHROTTLE_METHOD_BY_CLICK
  | UNTHROTTLE_METHOD_BY_WHITELIST
  | UNTHROTTLE_METHOD_BY_SIZE_CHANGE

datatype PeripheralContentStatus =
    CONTENT_STATUS_PERIPHERAL
  | CONTENT_STATUS_ESSENTIAL_CROSS_ORIGIN_BIG
  | CONTENT_STATUS_OTHER nat
  \<comment> \<open>the source names two values of the enumeration; the remaining ones are
      \<open>CONTENT_STATUS_OTHER\<close>\<close>

datatype error = DCHECK_failed | CHECK_failed | NOTREACHED_hit | null_dereference

datatype throttler = Throttler (GetWebPlugin: "web_plugin option")
  \<comment> \<open>a \<^verbatim>\<open>PluginInstanceThrottler\<close>; \<^verbatim>\<open>GetWebPlugin()\<close> may be null\<close>

datatype web_view_plugin = WebViewPlugin (container: bool)
  \<comment> \<open>the placeholder's own plugin; \<open>container\<close> says whether
      \<^verbatim>\<open>plugin()->container()\<close> is non-null\<close>

datatype plugin_ref = Placeholder | Plugin web_plugin

datatype script =
    setMessage string
  | resizePoster int int int int
  \<comment> \<open>\<^verbatim>\<open>window.setMessage(<quoted message>)\<close> and
      \<^verbatim>\<open>window.resizePoster('<x>px', '<y>px', '<width>px', '<height>px')\<close>\<close>

datatype effect =
    RegisterPeripheralPlugin
  | ThrottlerMarkPluginEssential PowerSaverUnthrottleMethod
  | ThrottlerSetHiddenForPlaceholder bool
  | RecordUnthrottleMethodMetric PowerSaverUnthrottleMethod
  | RecordAction string
  | CreatePluginCalled
  | WebPluginDestroy web_plugin
  | PlaceholderDestroy
  | ContainerSetPlugin plugin_ref
  | WebPluginInitialize web_plugin
  | RestoreTitleText
  | ContainerInvalidate
  | ContainerReportGeometry
  | ReplayReceivedData web_plugin
  | ExecuteScript script
  | GetPeripheralContentStatusCalled int int
  | WhitelistContentOrigin
  | OnLoadedRectUpdateCalled rect PeripheralContentStatus

record placeholder =
  is_delayed_placeholder :: bool
  is_blocked_for_background_tab :: bool
  is_blocked_for_prerendering :: bool
  is_blocked_for_power_saver_poster :: bool
  power_saver_enabled :: bool
  premade_throttler :: "throttler option"
  allow_loading :: bool
  finished_loading :: bool
  heuristic_run_before :: bool
  message :: string
  identifier' :: string
  unobscured_rect :: rect
  plugin :: "web_view_plugin option"
  hidden :: bool
  trace :: "effect list"

text \<open>
  The answers of the host. \<open>CreatePlugin\<close> is the result of the virtual
  \<^verbatim>\<open>CreatePlugin()\<close>. For a target plugin \<open>p\<close>: \<open>initialize p\<close> is what
  \<^verbatim>\<open>p->initialize(container)\<close> returns, \<open>new_plugin_container p\<close> whether
  \<^verbatim>\<open>p->container()\<close> is non-null after that call, \<open>element_pluginContainer p\<close>
  whether the saved element still has a container once \<open>p\<close> is installed and
  initialised, and \<open>container_plugin p\<close> what \<^verbatim>\<open>container->plugin()\<close> then
  returns. \<open>zoom_adjusted\<close> is the division of a rectangle by the page zoom
  factor with \<^verbatim>\<open>roundf\<close>, a floating-point computation taken as given.
\<close>

record env =
  render_thread :: bool
  CreatePlugin :: "web_plugin option"
  initialize :: "web_plugin \<Rightarrow> bool"
  new_plugin_container :: "web_plugin \<Rightarrow> bool"
  element_pluginContainer :: "web_plugin \<Rightarrow> bool"
  container_plugin :: "web_plugin \<Rightarrow> web_plugin"
  zoom_adjusted :: "rect \<Rightarrow> rect"
  GetPeripheralContentStatus :: "int \<times> int \<Rightarrow> PeripheralContentStatus"
  OnLoadedRectUpdate ::
    "rect \<Rightarrow> PeripheralContentStatus \<Rightarrow> placeholder \<Rightarrow> error + placeholder"

definition emit :: "effect \<Rightarrow> placeholder \<Rightarrow> placeholder" where
  "emit e s = s\<lparr>trace := trace s @ [e]\<rparr>"

definition and_then ::
  "error + placeholder \<Rightarrow> (placeholder \<Rightarrow> error + placeholder) \<Rightarrow> error + placeholder" where
  "and_then r f = (case r of Inl e \<Rightarrow> Inl e | Inr s \<Rightarrow> f s)"

subsection \<open>Construction\<close>

text \<open>
  The member initialisers run in the order written: \<^verbatim>\<open>premade_throttler_\<close>
  receives \<^verbatim>\<open>nullptr\<close>, and \<^verbatim>\<open>heuristic_run_before_\<close> is then computed
  from the member just initialised. The base-class constructor is not in the
  file; the plugin it creates is the argument \<open>p\<close>, and the placeholder
  starts visible.
\<close>

definition LoadablePluginPlaceholder :: "web_view_plugin option \<Rightarrow> placeholder" where
  "LoadablePluginPlaceholder p =
     (let premade_throttler_init = (None :: throttler option)
      in \<lparr> is_delayed_placeholder = False,
           is_blocked_for_background_tab = False,
           is_blocked_for_prerendering = False,
           is_blocked_for_power_saver_poster = False,
           power_saver_enabled = False,
           premade_throttler = premade_throttler_init,
           allow_loading = False,
           finished_loading = False,
           heuristic_run_before = (premade_throttler_init \<noteq> None),
           message = [],
           identifier' = [],
           unobscured_rect = (0, 0, 0, 0),
           plugin = p,
           hidden = False,
           trace = [] \<rparr>)"

definition SetPremadePlugin :: "throttler option \<Rightarrow> placeholder \<Rightarrow> error + placeholder" where
  "SetPremadePlugin throttler s =
     (if throttler = None then Inl DCHECK_failed
      else if premade_throttler s \<noteq> None then Inl DCHECK_failed
      else Inr (s\<lparr>premade_throttler := throttler\<rparr>))"

definition BlockForPowerSaverPoster :: "placeholder \<Rightarrow> error + placeholder" where
  "BlockForPowerSaverPoster s =
     (if is_blocked_for_power_saver_poster s then Inl DCHECK_failed
      else Inr (emit RegisterPeripheralPlugin (s\<lparr>is_blocked_for_power_saver_poster := True\<rparr>)))"

subsection \<open>Teardown and the swap\<close>

text \<open>
  Modelled from the spec: \<^verbatim>\<open>PluginPlaceholderBase::PluginDestroyed\<close> is not
  in the file. The spec says that once the placeholder's plugin is destroyed the
  gate's reference to it is gone, so the base method clears \<open>plugin\<close>.
\<close>

definition PluginPlaceholderBase_PluginDestroyed :: "placeholder \<Rightarrow> placeholder" where
  "PluginPlaceholderBase_PluginDestroyed s = s\<lparr>plugin := None\<rparr>"

definition PluginDestroyed :: "placeholder \<Rightarrow> error + placeholder" where
  "PluginDestroyed s =
     and_then
       (if power_saver_enabled s then
          and_then
            (case premade_throttler s of
               Some t \<Rightarrow>
                 (case GetWebPlugin t of
                    None \<Rightarrow> Inl null_dereference
                  | Some w \<Rightarrow> Inr ((emit (WebPluginDestroy w) s)\<lparr>premade_throttler := None\<rparr>))
             | None \<Rightarrow>
                 if is_blocked_for_power_saver_poster s
                 then Inr (emit (RecordUnthrottleMethodMetric UNTHROTTLE_METHOD_NEVER) s)
                 else Inr s)
            (\<lambda>s1. Inr (s1\<lparr>power_saver_enabled := False\<rparr>))
        else Inr s)
       (\<lambda>s2. Inr (PluginPlaceholderBase_PluginDestroyed s2))"

text \<open>
  Modelled from the spec: \<^verbatim>\<open>WebViewPlugin::destroy\<close> is not in the file.
  The spec (data model and section 4.1) has the gate's reference to its plugin
  gone once the swap has destroyed the placeholder. The only code that drops the
  reference is the teardown notification \<open>PluginDestroyed\<close>, so destroying
  the placeholder's plugin is taken to deliver it.
\<close>

definition plugin_destroy :: "placeholder \<Rightarrow> error + placeholder" where
  "plugin_destroy s =
     (case plugin s of
        None \<Rightarrow> Inl null_dereference
      | Some p \<Rightarrow> PluginDestroyed (emit PlaceholderDestroy s))"

definition ReplacePlugin_finish :: "env \<Rightarrow> web_plugin \<Rightarrow> placeholder \<Rightarrow> error + placeholder" where
  "ReplacePlugin_finish h new_plugin s =
     (if \<not> element_pluginContainer h new_plugin then plugin_destroy s
      else
        let new_plugin' = container_plugin h new_plugin
        in plugin_destroy
             (emit (ReplayReceivedData new_plugin')
               (emit ContainerReportGeometry
                 (emit ContainerInvalidate
                   (emit RestoreTitleText s)))))"

definition ReplacePlugin :: "env \<Rightarrow> web_plugin option \<Rightarrow> placeholder \<Rightarrow> error + placeholder" where
  "ReplacePlugin h new_plugin s =
     (case plugin s of
        None \<Rightarrow> Inl CHECK_failed
      | Some p \<Rightarrow>
         (case new_plugin of
            None \<Rightarrow> Inr s
          | Some n \<Rightarrow>
              if \<not> container p then Inr (emit (WebPluginDestroy n) s)
              else
                let s1 = emit (ContainerSetPlugin (Plugin n)) s;
                    plugin_needs_initialization =
                      (case premade_throttler s1 of
                         None \<Rightarrow> True
                       | Some t \<Rightarrow> Some n \<noteq> GetWebPlugin t)
                in if plugin_needs_initialization then
                     (let s2 = emit (WebPluginInitialize n) s1
                      in if \<not> initialize h n then
                           (if new_plugin_container h n
                            then Inr (emit (WebPluginDestroy n)
                                       (emit (ContainerSetPlugin Placeholder) s2))
                            else Inr s2)
                         else ReplacePlugin_finish h n s2)
                   else ReplacePlugin_finish h n s1))"

subsection \<open>The gate\<close>

definition LoadPlugin :: "env \<Rightarrow> placeholder \<Rightarrow> error + placeholder" where
  "LoadPlugin h s =
     (if hidden s then Inr s
      else if plugin s = None then Inr s
      else if \<not> allow_loading s then Inl NOTREACHED_hit
      else
        (case premade_throttler s of
           Some t \<Rightarrow>
             and_then
               (ReplacePlugin h (GetWebPlugin t)
                  (emit (ThrottlerSetHiddenForPlaceholder False) s))
               (\<lambda>s1. Inr (s1\<lparr>premade_throttler := None\<rparr>))
         | None \<Rightarrow> ReplacePlugin h (CreatePlugin h) (emit CreatePluginCalled s)))"

definition LoadingBlocked :: "placeholder \<Rightarrow> error + bool" where
  "LoadingBlocked s =
     (if \<not> allow_loading s then Inl DCHECK_failed
      else Inr (is_blocked_for_background_tab s \<or> is_blocked_for_power_saver_poster s \<or>
                is_blocked_for_prerendering s))"

definition load_unless_blocked :: "env \<Rightarrow> placeholder \<Rightarrow> error + placeholder" where
  \<comment> \<open>\<^verbatim>\<open>if (!LoadingBlocked()) LoadPlugin();\<close>\<close>
  "load_unless_blocked h s =
     (case LoadingBlocked s of
        Inl e \<Rightarrow> Inl e
      | Inr blocked \<Rightarrow> if \<not> blocked then LoadPlugin h s else Inr s)"

definition MarkPluginEssential ::
  "env \<Rightarrow> PowerSaverUnthrottleMethod \<Rightarrow> placeholder \<Rightarrow> error + placeholder" where
  "MarkPluginEssential h method s =
     (if \<not> power_saver_enabled s then Inr s
      else
        let s1 = s\<lparr>power_saver_enabled := False\<rparr>;
            s2 = (if premade_throttler s1 \<noteq> None
                  then emit (ThrottlerMarkPluginEssential method) s1
                  else if method \<noteq> UNTHROTTLE_METHOD_DO_NOT_RECORD
                  then emit (RecordUnthrottleMethodMetric method) s1
                  else s1)
        in if is_blocked_for_power_saver_poster s2
           then load_unless_blocked h (s2\<lparr>is_blocked_for_power_saver_poster := False\<rparr>)
           else Inr s2)"

definition WasShown :: "env \<Rightarrow> placeholder \<Rightarrow> error + placeholder" where
  "WasShown h s =
     (if is_blocked_for_background_tab s
      then load_unless_blocked h (s\<lparr>is_blocked_for_background_tab := False\<rparr>)
      else Inr s)"

definition OnLoadBlockedPlugins :: "env \<Rightarrow> string \<Rightarrow> placeholder \<Rightarrow> error + placeholder" where
  "OnLoadBlockedPlugins h ident s =
     (if ident \<noteq> [] \<and> ident \<noteq> identifier' s then Inr s
      else if \<not> render_thread h then Inl null_dereference
      else LoadPlugin h (emit (RecordAction ''Plugin_Load_UI'') s))"

definition OnSetIsPrerendering :: "env \<Rightarrow> bool \<Rightarrow> placeholder \<Rightarrow> error + placeholder" where
  "OnSetIsPrerendering h is_prerendering s =
     (if is_prerendering then Inl DCHECK_failed
      else if is_blocked_for_prerendering s
      then load_unless_blocked h (s\<lparr>is_blocked_for_prerendering := False\<rparr>)
      else Inr s)"

definition LoadCallback :: "env \<Rightarrow> placeholder \<Rightarrow> error + placeholder" where
  "LoadCallback h s =
     (if \<not> render_thread h then Inl null_dereference
      else and_then
             (MarkPluginEssential h UNTHROTTLE_METHOD_BY_CLICK
                (emit (RecordAction ''Plugin_Load_Click'') s))
             (LoadPlugin h))"

subsection \<open>The status message\<close>

definition UpdateMessage :: "placeholder \<Rightarrow> placeholder" where
  "UpdateMessage s =
     (if plugin s = None then s
      else emit (ExecuteScript (setMessage (message s))) s)"

definition SetMessage :: "string \<Rightarrow> placeholder \<Rightarrow> placeholder" where
  "SetMessage m s =
     (let s1 = s\<lparr>message := m\<rparr>
      in if finished_loading s1 then UpdateMessage s1 else s1)"

definition DidFinishLoadingCallback :: "placeholder \<Rightarrow> error + placeholder" where
  "DidFinishLoadingCallback s =
     (let s1 = s\<lparr>finished_loading := True\<rparr>;
          s2 = (if length (message s1) > 0 then UpdateMessage s1 else s1);
          s3 = (if premade_throttler s2 \<noteq> None \<and> power_saver_enabled s2
                then emit (ThrottlerSetHiddenForPlaceholder True) s2 else s2)
      in case plugin s3 of
           None \<Rightarrow> Inr s3
         | Some p \<Rightarrow>
             if \<not> container p then Inl CHECK_failed
             else Inr (emit ContainerReportGeometry s3))"

subsection \<open>Size and visibility updates\<close>

definition OnUnobscuredRectUpdate :: "env \<Rightarrow> rect \<Rightarrow> placeholder \<Rightarrow> error + placeholder" where
  "OnUnobscuredRectUpdate h r s =
     (if \<not> render_thread h then Inl DCHECK_failed
      else case plugin s of
        None \<Rightarrow> Inr s
      | Some p \<Rightarrow>
          if \<not> finished_loading s then Inr s
          else if unobscured_rect s = r then Inr s
          else
            let s1 = s\<lparr>unobscured_rect := r\<rparr>
            in if \<not> container p then Inl null_dereference
               else
                 (case zoom_adjusted h (unobscured_rect s1) of (x, y, width, height) \<Rightarrow>
                   let status = GetPeripheralContentStatus h (width, height);
                       s2 = emit (GetPeripheralContentStatusCalled width height) s1
                   in if is_delayed_placeholder s2 then
                        and_then
                          (OnLoadedRectUpdate h (x, y, width, height) status
                             (emit (OnLoadedRectUpdateCalled (x, y, width, height) status) s2))
                          (\<lambda>s3. Inr (s3\<lparr>is_delayed_placeholder := False\<rparr>))
                      else if is_blocked_for_power_saver_poster s2 then
                        and_then
                          (let s3 = emit (ExecuteScript (resizePoster x y width height)) s2
                           in if status \<noteq> CONTENT_STATUS_PERIPHERAL then
                                and_then
                                  (MarkPluginEssential h
                                     (if heuristic_run_before s3
                                      then UNTHROTTLE_METHOD_BY_SIZE_CHANGE
                                      else UNTHROTTLE_METHOD_DO_NOT_RECORD) s3)
                                  (\<lambda>s4. if \<not> heuristic_run_before s4 \<and>
                                            status = CONTENT_STATUS_ESSENTIAL_CROSS_ORIGIN_BIG
                                         then Inr (emit WhitelistContentOrigin s4)
                                         else Inr s4)
                              else Inr s3)
                          (\<lambda>s5. Inr (s5\<lparr>heuristic_run_before := True\<rparr>))
                      else Inr s2))"

definition GetV8ScriptableObject :: "placeholder \<Rightarrow> web_plugin option" where
  \<comment> \<open>the plugin whose scriptable object is passed through, if any\<close>
  "GetV8ScriptableObject s =
     (case premade_throttler s of
        Some t \<Rightarrow> (case GetWebPlugin t of Some w \<Rightarrow> Some w | None \<Rightarrow> None)
      | None \<Rightarrow> None)"

subsection \<open>Notions used in the statements\<close>

text \<open>
  The swap and the teardown it ends with write four fields only; \<open>swap_frame\<close>
  blanks them, so that two states with the same \<open>swap_frame\<close> agree on every
  other field.
\<close>

definition swap_frame :: "placeholder \<Rightarrow> placeholder" where
  "swap_frame s =
     s\<lparr>trace := [], power_saver_enabled := False, premade_throttler := None, plugin := None\<rparr>"

definition new_effects :: "placeholder \<Rightarrow> placeholder \<Rightarrow> effect list" where
  \<comment> \<open>what a run from \<open>s\<close> to \<open>s'\<close> added to the trace\<close>
  "new_effects s s' = drop (length (trace s)) (trace s')"

text \<open>
  The plugin that \<open>LoadPlugin\<close> hands to \<open>ReplacePlugin\<close>: the premade
  throttler's plugin if there is a premade throttler, else the result of
  \<^verbatim>\<open>CreatePlugin()\<close>. Either may be null.
\<close>

definition load_target :: "env \<Rightarrow> placeholder \<Rightarrow> web_plugin option" where
  "load_target h s =
     (case premade_throttler s of Some t \<Rightarrow> GetWebPlugin t | None \<Rightarrow> CreatePlugin h)"

subsection \<open>Concrete hosts and placeholders\<close>

definition env0 :: env where
  "env0 = \<lparr> render_thread = True, CreatePlugin = Some 7, initialize = (\<lambda>_. True),
            new_plugin_container = (\<lambda>_. True), element_pluginContainer = (\<lambda>_. True),
            container_plugin = (\<lambda>p. p), zoom_adjusted = (\<lambda>r. r),
            GetPeripheralContentStatus = (\<lambda>_. CONTENT_STATUS_OTHER 0),
            OnLoadedRectUpdate = (\<lambda>_ _ s. Inr s) \<rparr>"

definition env_init_fails :: env where
  "env_init_fails = env0\<lparr>initialize := (\<lambda>_. False)\<rparr>"

definition env_init_fails_gone :: env where
  "env_init_fails_gone =
     env0\<lparr>initialize := (\<lambda>_. False), new_plugin_container := (\<lambda>_. False)\<rparr>"

definition env_big :: env where
  "env_big =
     env0\<lparr>GetPeripheralContentStatus := (\<lambda>_. CONTENT_STATUS_ESSENTIAL_CROSS_ORIGIN_BIG)\<rparr>"

definition throttler1 :: throttler where
  "throttler1 = Throttler (Some 1)"

definition swap_trace :: "web_plugin \<Rightarrow> effect list" where
  \<comment> \<open>the calls of a swap that runs to its end with plugin \<open>n\<close>\<close>
  "swap_trace n =
     [ContainerSetPlugin (Plugin n), WebPluginInitialize n, RestoreTitleText,
      ContainerInvalidate, ContainerReportGeometry, ReplayReceivedData n, PlaceholderDestroy]"

definition placeholder0 :: placeholder where
  "placeholder0 = LoadablePluginPlaceholder (Some (WebViewPlugin True))"

definition s_bg :: placeholder where
  "s_bg = placeholder0\<lparr>is_blocked_for_background_tab := True, allow_loading := True\<rparr>"

definition s_prerender :: placeholder where
  "s_prerender = placeholder0\<lparr>allow_loading := True, is_blocked_for_prerendering := True\<rparr>"

definition s_poster :: placeholder where
  "s_poster = placeholder0\<lparr>allow_loading := True, finished_loading := True,
       power_saver_enabled := True, is_blocked_for_power_saver_poster := True\<rparr>"

definition s_poster_loaded :: placeholder where
  "s_poster_loaded =
     s_poster\<lparr>is_blocked_for_power_saver_poster := False, power_saver_enabled := False,
       plugin := None,
       trace := RecordUnthrottleMethodMetric UNTHROTTLE_METHOD_BY_CLICK #
                CreatePluginCalled # swap_trace 7\<rparr>"

definition s_delayed :: placeholder where
  "s_delayed = s_poster\<lparr>is_delayed_placeholder := True\<rparr>"

definition s_finished :: placeholder where
  "s_finished = placeholder0\<lparr>allow_loading := True, finished_loading := True\<rparr>"

definition s_gone :: placeholder where
  "s_gone = placeholder0\<lparr>finished_loading := True, plugin := None\<rparr>"

definition s_detached :: placeholder where
  "s_detached = placeholder0\<lparr>plugin := Some (WebViewPlugin False)\<rparr>"

definition s_throttled :: placeholder where
  "s_throttled =
     placeholder0\<lparr>premade_throttler := Some throttler1, power_saver_enabled := True,
       allow_loading := True\<rparr>"

definition s_throttled_bg :: placeholder where
  "s_throttled_bg = s_throttled\<lparr>is_blocked_for_background_tab := True\<rparr>"

section \<open>Properties\<close>

lemmas swap_defs = ReplacePlugin_def emit_def ReplacePlugin_finish_def plugin_destroy_def
  PluginDestroyed_def and_then_def PluginPlaceholderBase_PluginDestroyed_def

lemmas gate_defs = MarkPluginEssential_def load_unless_blocked_def LoadingBlocked_def
  LoadPlugin_def

lemmas input_defs = placeholder0_def LoadablePluginPlaceholder_def env0_def env_init_fails_def
  env_init_fails_gone_def env_big_def throttler1_def swap_trace_def s_bg_def s_delayed_def
  s_prerender_def s_poster_def s_poster_loaded_def s_finished_def s_gone_def s_detached_def
  s_throttled_def s_throttled_bg_def

subsection \<open>Fields and the trace\<close>

lemma emit_fields [simp]:
  "is_delayed_placeholder (emit e s) = is_delayed_placeholder s"
  "is_blocked_for_background_tab (emit e s) = is_blocked_for_background_tab s"
  "is_blocked_for_prerendering (emit e s) = is_blocked_for_prerendering s"
  "is_blocked_for_power_saver_poster (emit e s) = is_blocked_for_power_saver_poster s"
  "power_saver_enabled (emit e s) = power_saver_enabled s"
  "premade_throttler (emit e s) = premade_throttler s"
  "allow_loading (emit e s) = allow_loading s"
  "finished_loading (emit e s) = finished_loading s"
  "heuristic_run_before (emit e s) = heuristic_run_before s"
  "message (emit e s) = message s"
  "unobscured_rect (emit e s) = unobscured_rect s"
  "plugin (emit e s) = plugin s"
  "hidden (emit e s) = hidden s"
  "trace (emit e s) = trace s @ [e]"
  by (simp_all add: emit_def)

lemma new_effects_append [simp]: "trace s' = trace s @ new \<Longrightarrow> new_effects s s' = new"
  by (simp add: new_effects_def)

lemma new_effects_same [simp]: "new_effects s s = []"
  by (simp add: new_effects_def)

lemma result_iff: "r = Inr s' \<Longrightarrow> (\<exists>x. r = Inr x \<and> Q x) \<longleftrightarrow> Q s'"
  by auto

lemma swap_frame_prerendering:
  "swap_frame s' = swap_frame s \<Longrightarrow>
   is_blocked_for_prerendering s' = is_blocked_for_prerendering s"
  by (drule arg_cong [where f = is_blocked_for_prerendering]) (simp add: swap_frame_def)

lemma swap_frame_heuristic:
  "swap_frame s' = swap_frame s \<Longrightarrow> heuristic_run_before s' = heuristic_run_before s"
  by (drule arg_cong [where f = heuristic_run_before]) (simp add: swap_frame_def)

subsection \<open>What the swap touches\<close>

lemma ReplacePlugin_frame:
  "ReplacePlugin h np s = Inr s' \<Longrightarrow> swap_frame s' = swap_frame s"
  by (auto simp: swap_defs swap_frame_def Let_def split: option.splits if_splits)

lemma ReplacePlugin_total:
  "plugin s \<noteq> None \<Longrightarrow> (\<forall>t. premade_throttler s = Some t \<longrightarrow> np = GetWebPlugin t) \<Longrightarrow>
   \<exists>s'. ReplacePlugin h np s = Inr s'"
  by (auto simp: swap_defs Let_def split: option.splits if_splits)

lemma ReplacePlugin_trace:
  "ReplacePlugin h np s = Inr s' \<Longrightarrow> \<exists>new. trace s' = trace s @ new"
  by (auto simp: swap_defs Let_def split: option.splits if_splits)

lemma ReplacePlugin_no_whitelist:
  "ReplacePlugin h np s = Inr s' \<Longrightarrow>
   \<exists>new. trace s' = trace s @ new \<and> WhitelistContentOrigin \<notin> set new"
  by (auto simp: swap_defs Let_def split: option.splits if_splits)

lemma LoadPlugin_frame:
  "LoadPlugin h s = Inr s' \<Longrightarrow> swap_frame s' = swap_frame s"
  by (auto simp: LoadPlugin_def swap_defs swap_frame_def Let_def split: option.splits if_splits)

lemma LoadPlugin_power_saver:
  "LoadPlugin h s = Inr s' \<Longrightarrow> power_saver_enabled s' \<Longrightarrow> power_saver_enabled s"
  by (auto simp: LoadPlugin_def swap_defs Let_def split: option.splits if_splits)

lemma LoadPlugin_no_whitelist:
  "LoadPlugin h s = Inr s' \<Longrightarrow>
   \<exists>new. trace s' = trace s @ new \<and> WhitelistContentOrigin \<notin> set new"
  by (auto simp: LoadPlugin_def and_then_def emit_def split: option.splits if_splits sum.splits
      dest!: ReplacePlugin_no_whitelist)

text \<open>
  Past its three guards \<open>LoadPlugin\<close> always returns, and the host has seen at
  least one call: the throttler is unhidden or \<^verbatim>\<open>CreatePlugin()\<close> is asked
  for a plugin.
\<close>

lemma LoadPlugin_swaps:
  assumes "\<not> hidden s" "plugin s \<noteq> None" "allow_loading s"
  shows "\<exists>s' e new. LoadPlugin h s = Inr s' \<and> trace s' = trace s @ e # new"
proof (cases "premade_throttler s")
  case None
  let ?s1 = "emit CreatePluginCalled s"
  have "plugin ?s1 \<noteq> None"
    "\<forall>t. premade_throttler ?s1 = Some t \<longrightarrow> CreatePlugin h = GetWebPlugin t"
    using assms None by simp_all
  then obtain s' where r: "ReplacePlugin h (CreatePlugin h) ?s1 = Inr s'"
    using ReplacePlugin_total by blast
  then obtain new where "trace s' = trace ?s1 @ new"
    using ReplacePlugin_trace by blast
  then have "trace s' = trace s @ CreatePluginCalled # new"
    by simp
  moreover have "LoadPlugin h s = Inr s'"
    using assms None r by (auto simp: LoadPlugin_def)
  ultimately show ?thesis by blast
next
  case (Some t)
  let ?s1 = "emit (ThrottlerSetHiddenForPlaceholder False) s"
  have "plugin ?s1 \<noteq> None"
    "\<forall>u. premade_throttler ?s1 = Some u \<longrightarrow> GetWebPlugin t = GetWebPlugin u"
    using assms Some by simp_all
  then obtain s' where r: "ReplacePlugin h (GetWebPlugin t) ?s1 = Inr s'"
    using ReplacePlugin_total by blast
  then obtain new where "trace s' = trace ?s1 @ new"
    using ReplacePlugin_trace by blast
  then have "trace (s'\<lparr>premade_throttler := None\<rparr>) =
      trace s @ ThrottlerSetHiddenForPlaceholder False # new"
    by simp
  moreover have "LoadPlugin h s = Inr (s'\<lparr>premade_throttler := None\<rparr>)"
    using assms Some r by (auto simp: LoadPlugin_def and_then_def)
  ultimately show ?thesis by blast
qed


subsection \<open>What marking essential touches\<close>

lemma load_unless_blocked_frame:
  "load_unless_blocked h s = Inr s' \<Longrightarrow> swap_frame s' = swap_frame s"
  using LoadPlugin_frame
  by (auto simp: load_unless_blocked_def LoadingBlocked_def split: if_splits)

lemma load_unless_blocked_power_saver:
  "load_unless_blocked h s = Inr s' \<Longrightarrow> power_saver_enabled s' \<Longrightarrow> power_saver_enabled s"
  using LoadPlugin_power_saver
  by (auto simp: load_unless_blocked_def LoadingBlocked_def split: if_splits)

lemma MarkPluginEssential_disables:
  "MarkPluginEssential h m s = Inr s' \<Longrightarrow> \<not> power_saver_enabled s'"
  by (auto simp: MarkPluginEssential_def Let_def emit_def split: if_splits
      dest: load_unless_blocked_power_saver)

lemma MarkPluginEssential_heuristic:
  "MarkPluginEssential h m s = Inr s' \<Longrightarrow> heuristic_run_before s' = heuristic_run_before s"
  by (auto simp: MarkPluginEssential_def Let_def emit_def split: if_splits
      dest!: load_unless_blocked_frame swap_frame_heuristic)


lemma MarkPluginEssential_no_whitelist:
  "MarkPluginEssential h m s = Inr s' \<Longrightarrow>
   \<exists>new. trace s' = trace s @ new \<and> WhitelistContentOrigin \<notin> set new"
  by (auto simp: MarkPluginEssential_def Let_def emit_def load_unless_blocked_def
      LoadingBlocked_def split: if_splits dest!: LoadPlugin_no_whitelist)

subsection \<open>When the load transition fires\<close>

text \<open>
  What a swap started by \<open>LoadPlugin\<close> shows the host. The target is installed
  in the container (\<^verbatim>\<open>container->setPlugin(new_plugin)\<close>) exactly when it
  is not null and the placeholder's plugin still has its container. The
  placeholder is destroyed, which ends the swap, exactly when moreover the
  initialisation a created target needs succeeds.
\<close>

lemma ReplacePlugin_effects:
  assumes "ReplacePlugin h np s = Inr s'" "plugin s = Some p"
  shows "\<exists>new. trace s' = trace s @ new \<and>
     (\<forall>n. ContainerSetPlugin (Plugin n) \<in> set new \<longleftrightarrow> np = Some n \<and> container p) \<and>
     (PlaceholderDestroy \<in> set new \<longleftrightarrow>
        container p \<and>
        (\<exists>n. np = Some n \<and>
          ((\<forall>t. premade_throttler s = Some t \<longrightarrow> GetWebPlugin t \<noteq> Some n) \<longrightarrow> initialize h n)))"
  using assms
  by (auto simp: swap_defs Let_def split: option.splits if_splits)


lemma LoadPlugin_effects:
  assumes g: "\<not> hidden s" "plugin s = Some p" "allow_loading s"
  shows "\<exists>s' new. LoadPlugin h s = Inr s' \<and> trace s' = trace s @ new \<and>
     (ContainerSetPlugin (Plugin n) \<in> set new \<longleftrightarrow> load_target h s = Some n \<and> container p) \<and>
     (PlaceholderDestroy \<in> set new \<longleftrightarrow>
        container p \<and>
        (\<exists>m. load_target h s = Some m \<and> (premade_throttler s = None \<longrightarrow> initialize h m)))"
proof (cases "premade_throttler s")
  case None
  let ?s1 = "emit CreatePluginCalled s"
  have p1: "plugin ?s1 = Some p" "premade_throttler ?s1 = None"
    using g None by simp_all
  then obtain s' where r: "ReplacePlugin h (CreatePlugin h) ?s1 = Inr s'"
    using ReplacePlugin_total [of ?s1 "CreatePlugin h" h] by auto
  from ReplacePlugin_effects [OF r p1(1)] p1(2)
  obtain new where new: "trace s' = trace ?s1 @ new"
    "\<forall>n. ContainerSetPlugin (Plugin n) \<in> set new \<longleftrightarrow> CreatePlugin h = Some n \<and> container p"
    "PlaceholderDestroy \<in> set new \<longleftrightarrow>
       container p \<and> (\<exists>n. CreatePlugin h = Some n \<and> initialize h n)"
    by auto
  have l: "LoadPlugin h s = Inr s'"
    using g None r by (auto simp: LoadPlugin_def)
  have t: "trace s' = trace s @ CreatePluginCalled # new"
    using new(1) by simp
  show ?thesis
    using l t new(2,3) None by (auto simp: load_target_def)
next
  case (Some t)
  let ?s1 = "emit (ThrottlerSetHiddenForPlaceholder False) s"
  have p1: "plugin ?s1 = Some p" "premade_throttler ?s1 = Some t"
    using g Some by simp_all
  then obtain s' where r: "ReplacePlugin h (GetWebPlugin t) ?s1 = Inr s'"
    using ReplacePlugin_total [of ?s1 "GetWebPlugin t" h] by auto
  from ReplacePlugin_effects [OF r p1(1)] p1(2)
  obtain new where new: "trace s' = trace ?s1 @ new"
    "\<forall>n. ContainerSetPlugin (Plugin n) \<in> set new \<longleftrightarrow> GetWebPlugin t = Some n \<and> container p"
    "PlaceholderDestroy \<in> set new \<longleftrightarrow> container p \<and> (\<exists>n. GetWebPlugin t = Some n)"
    by auto
  have l: "LoadPlugin h s = Inr (s'\<lparr>premade_throttler := None\<rparr>)"
    using g Some r by (auto simp: LoadPlugin_def and_then_def)
  have t: "trace (s'\<lparr>premade_throttler := None\<rparr>) =
      trace s @ ThrottlerSetHiddenForPlaceholder False # new"
    using new(1) by simp
  show ?thesis
    using l t new(2,3) Some by (auto simp: load_target_def)
qed

lemma LoadPlugin_quiet_or_fatal:
  "hidden s \<or> plugin s = None \<Longrightarrow> LoadPlugin h s = Inr s"
  "\<not> hidden s \<Longrightarrow> plugin s \<noteq> None \<Longrightarrow> \<not> allow_loading s \<Longrightarrow> LoadPlugin h s = Inl NOTREACHED_hit"
  by (auto simp: LoadPlugin_def)

lemma LoadPlugin_installs_iff:
  "(\<exists>s'. LoadPlugin h s = Inr s' \<and> ContainerSetPlugin (Plugin n) \<in> set (new_effects s s')) \<longleftrightarrow>
      (\<not> hidden s \<and> allow_loading s \<and> (\<exists>p. plugin s = Some p \<and> container p) \<and>
       load_target h s = Some n)"
proof (cases "\<not> hidden s \<and> plugin s \<noteq> None \<and> allow_loading s")
  case True
  then obtain p where p: "plugin s = Some p" by auto
  from True have g: "\<not> hidden s" "allow_loading s" by simp_all
  from LoadPlugin_effects [OF g(1) p g(2), of h n]
  obtain s' new where l: "LoadPlugin h s = Inr s'" and t: "trace s' = trace s @ new"
    and i: "ContainerSetPlugin (Plugin n) \<in> set new \<longleftrightarrow> load_target h s = Some n \<and> container p"
    by (elim exE conjE) (rule that, assumption+)
  have ne: "new_effects s s' = new" using t by simp
  have left: "(\<exists>x. LoadPlugin h s = Inr x \<and>
        ContainerSetPlugin (Plugin n) \<in> set (new_effects s x)) \<longleftrightarrow>
      ContainerSetPlugin (Plugin n) \<in> set new"
    unfolding result_iff [OF l] ne ..
  have right: "(\<exists>q. plugin s = Some q \<and> container q) \<longleftrightarrow> container p"
    using p by simp
  from True i show ?thesis unfolding left right by blast
next
  case False
  then consider "hidden s \<or> plugin s = None"
    | "\<not> hidden s" "plugin s \<noteq> None" "\<not> allow_loading s"
    by blast
  then show ?thesis
  proof cases
    case 1
    from LoadPlugin_quiet_or_fatal(1) [OF 1] have l: "LoadPlugin h s = Inr s" .
    from 1 show ?thesis unfolding result_iff [OF l] by auto
  next
    case 2
    from LoadPlugin_quiet_or_fatal(2) [OF 2] have "LoadPlugin h s = Inl NOTREACHED_hit" .
    with 2 show ?thesis by simp
  qed
qed

lemma LoadPlugin_completes_iff:
  "(\<exists>s'. LoadPlugin h s = Inr s' \<and> PlaceholderDestroy \<in> set (new_effects s s')) \<longleftrightarrow>
      (\<not> hidden s \<and> allow_loading s \<and> (\<exists>p. plugin s = Some p \<and> container p) \<and>
       (\<exists>m. load_target h s = Some m \<and> (premade_throttler s = None \<longrightarrow> initialize h m)))"
proof (cases "\<not> hidden s \<and> plugin s \<noteq> None \<and> allow_loading s")
  case True
  then obtain p where p: "plugin s = Some p" by auto
  from True have g: "\<not> hidden s" "allow_loading s" by simp_all
  from LoadPlugin_effects [OF g(1) p g(2), of h 0]
  obtain s' new where l: "LoadPlugin h s = Inr s'" and t: "trace s' = trace s @ new"
    and i: "PlaceholderDestroy \<in> set new \<longleftrightarrow>
      container p \<and>
      (\<exists>m. load_target h s = Some m \<and> (premade_throttler s = None \<longrightarrow> initialize h m))"
    by (elim exE conjE) (rule that, assumption+)
  have ne: "new_effects s s' = new" using t by simp
  have left: "(\<exists>x. LoadPlugin h s = Inr x \<and> PlaceholderDestroy \<in> set (new_effects s x)) \<longleftrightarrow>
      PlaceholderDestroy \<in> set new"
    unfolding result_iff [OF l] ne ..
  have right: "(\<exists>q. plugin s = Some q \<and> container q) \<longleftrightarrow> container p"
    using p by simp
  from g p show ?thesis unfolding left right i by simp
next
  case False
  then consider "hidden s \<or> plugin s = None"
    | "\<not> hidden s" "plugin s \<noteq> None" "\<not> allow_loading s"
    by blast
  then show ?thesis
  proof cases
    case 1
    from LoadPlugin_quiet_or_fatal(1) [OF 1] have l: "LoadPlugin h s = Inr s" .
    from 1 show ?thesis unfolding result_iff [OF l] by auto
  next
    case 2
    from LoadPlugin_quiet_or_fatal(2) [OF 2] have "LoadPlugin h s = Inl NOTREACHED_hit" .
    with 2 show ?thesis by simp
  qed
qed

lemma LoadPlugin_fatal_iff:
  "LoadPlugin h s = Inl e \<longleftrightarrow>
      (e = NOTREACHED_hit \<and> \<not> hidden s \<and> plugin s \<noteq> None \<and> \<not> allow_loading s)"
proof (cases "\<not> hidden s \<and> plugin s \<noteq> None \<and> allow_loading s")
  case True
  then obtain s' where "LoadPlugin h s = Inr s'"
    using LoadPlugin_swaps [of s h] by blast
  with True show ?thesis by simp
next
  case False
  then consider "hidden s \<or> plugin s = None"
    | "\<not> hidden s" "plugin s \<noteq> None" "\<not> allow_loading s"
    by blast
  then show ?thesis
  proof cases
    case 1
    from LoadPlugin_quiet_or_fatal(1) [OF 1] have "LoadPlugin h s = Inr s" .
    with 1 show ?thesis by auto
  next
    case 2
    from LoadPlugin_quiet_or_fatal(2) [OF 2] have "LoadPlugin h s = Inl NOTREACHED_hit" .
    with 2 show ?thesis by auto
  qed
qed

lemma load_unless_blocked_installs_iff:
  "(\<exists>s'. load_unless_blocked h s = Inr s' \<and>
          ContainerSetPlugin (Plugin n) \<in> set (new_effects s s')) \<longleftrightarrow>
      (\<not> is_blocked_for_background_tab s \<and> \<not> is_blocked_for_power_saver_poster s \<and>
       \<not> is_blocked_for_prerendering s \<and>
       \<not> hidden s \<and> allow_loading s \<and> (\<exists>p. plugin s = Some p \<and> container p) \<and>
       load_target h s = Some n)"
proof (cases "allow_loading s \<and> \<not> is_blocked_for_background_tab s \<and>
    \<not> is_blocked_for_power_saver_poster s \<and> \<not> is_blocked_for_prerendering s")
  case True
  then have "load_unless_blocked h s = LoadPlugin h s"
    by (simp add: load_unless_blocked_def LoadingBlocked_def)
  with True LoadPlugin_installs_iff [of h s n] show ?thesis by simp
next
  case False
  then have "load_unless_blocked h s = Inl DCHECK_failed \<or> load_unless_blocked h s = Inr s"
    by (auto simp: load_unless_blocked_def LoadingBlocked_def)
  with False show ?thesis by auto
qed

text \<open>
  C1, as the code has it. When the placeholder is not hidden, its plugin still
  exists and \<open>allow_loading\<close> is true, \<open>LoadPlugin\<close> runs \<open>ReplacePlugin\<close> on
  its target, whatever blockers are set: it does not read them. The target is
  then installed in the container if and only if, besides these three
  conditions, it is not null and the plugin has its container, and the
  placeholder is replaced (destroyed) if and only if, further, a created target
  initialises. \<open>LoadPlugin\<close> ends fatally exactly when the placeholder is
  visible with its plugin and \<open>allow_loading\<close> is false, and is a silent no-op
  when the placeholder is hidden or its plugin is gone. The blockers are read by
  the callers that go through \<^verbatim>\<open>if (!LoadingBlocked()) LoadPlugin()\<close>:
  that gated call installs the target if and only if, in addition, no blocker is
  set.
\<close>

theorem LoadPlugin_fires_iff:
  "(\<not> hidden s \<and> plugin s \<noteq> None \<and> allow_loading s \<longrightarrow>
      LoadPlugin h s =
        (case premade_throttler s of
           Some t \<Rightarrow>
             and_then
               (ReplacePlugin h (GetWebPlugin t)
                  (emit (ThrottlerSetHiddenForPlaceholder False) s))
               (\<lambda>s1. Inr (s1\<lparr>premade_throttler := None\<rparr>))
         | None \<Rightarrow> ReplacePlugin h (CreatePlugin h) (emit CreatePluginCalled s))) \<and>
   ((\<exists>s'. LoadPlugin h s = Inr s' \<and> ContainerSetPlugin (Plugin n) \<in> set (new_effects s s')) \<longleftrightarrow>
      (\<not> hidden s \<and> allow_loading s \<and> (\<exists>p. plugin s = Some p \<and> container p) \<and>
       load_target h s = Some n)) \<and>
   ((\<exists>s'. LoadPlugin h s = Inr s' \<and> PlaceholderDestroy \<in> set (new_effects s s')) \<longleftrightarrow>
      (\<not> hidden s \<and> allow_loading s \<and> (\<exists>p. plugin s = Some p \<and> container p) \<and>
       (\<exists>m. load_target h s = Some m \<and> (premade_throttler s = None \<longrightarrow> initialize h m)))) \<and>
   (LoadPlugin h s = Inl e \<longleftrightarrow>
      (e = NOTREACHED_hit \<and> \<not> hidden s \<and> plugin s \<noteq> None \<and> \<not> allow_loading s)) \<and>
   (hidden s \<or> plugin s = None \<longrightarrow> LoadPlugin h s = Inr s) \<and>
   ((\<exists>s'. load_unless_blocked h s = Inr s' \<and>
          ContainerSetPlugin (Plugin n) \<in> set (new_effects s s')) \<longleftrightarrow>
      (\<not> is_blocked_for_background_tab s \<and> \<not> is_blocked_for_power_saver_poster s \<and>
       \<not> is_blocked_for_prerendering s \<and>
       \<not> hidden s \<and> allow_loading s \<and> (\<exists>p. plugin s = Some p \<and> container p) \<and>
       load_target h s = Some n))"
proof (intro conjI)
  show "\<not> hidden s \<and> plugin s \<noteq> None \<and> allow_loading s \<longrightarrow>
      LoadPlugin h s =
        (case premade_throttler s of
           Some t \<Rightarrow>
             and_then
               (ReplacePlugin h (GetWebPlugin t)
                  (emit (ThrottlerSetHiddenForPlaceholder False) s))
               (\<lambda>s1. Inr (s1\<lparr>premade_throttler := None\<rparr>))
         | None \<Rightarrow> ReplacePlugin h (CreatePlugin h) (emit CreatePluginCalled s))"
    by (auto simp: LoadPlugin_def)
  show "hidden s \<or> plugin s = None \<longrightarrow> LoadPlugin h s = Inr s"
    using LoadPlugin_quiet_or_fatal(1) by blast
qed (rule LoadPlugin_installs_iff LoadPlugin_completes_iff LoadPlugin_fatal_iff
       load_unless_blocked_installs_iff)+

theorem LoadPlugin_fires_iff_witness:
  "LoadPlugin env0 s_bg = ReplacePlugin env0 (Some 7) (emit CreatePluginCalled s_bg) \<and>
   (\<exists>s'. LoadPlugin env0 s_bg = Inr s' \<and>
         ContainerSetPlugin (Plugin 7) \<in> set (new_effects s_bg s')) \<and>
   (\<exists>s'. LoadPlugin env0 s_bg = Inr s' \<and> PlaceholderDestroy \<in> set (new_effects s_bg s')) \<and>
   \<not> (\<exists>s'. LoadPlugin env_init_fails s_bg = Inr s' \<and>
           PlaceholderDestroy \<in> set (new_effects s_bg s')) \<and>
   LoadPlugin env0 placeholder0 = Inl NOTREACHED_hit \<and>
   LoadPlugin env0 (s_bg\<lparr>hidden := True\<rparr>) = Inr (s_bg\<lparr>hidden := True\<rparr>) \<and>
   \<not> (\<exists>s'. load_unless_blocked env0 s_bg = Inr s' \<and>
           ContainerSetPlugin (Plugin 7) \<in> set (new_effects s_bg s'))"
proof -
  have i: "\<not> hidden s_bg" "plugin s_bg = Some (WebViewPlugin True)" "allow_loading s_bg"
    "premade_throttler s_bg = None" "is_blocked_for_background_tab s_bg"
    "load_target env0 s_bg = Some 7" "load_target env_init_fails s_bg = Some 7"
    "CreatePlugin env0 = Some 7" "initialize env0 7" "\<not> initialize env_init_fails 7"
    "\<not> hidden placeholder0" "plugin placeholder0 \<noteq> None" "\<not> allow_loading placeholder0"
    "hidden (s_bg\<lparr>hidden := True\<rparr>)"
    by (simp_all add: input_defs load_target_def)
  note open_gate = LoadPlugin_fires_iff [of s_bg env0 7 NOTREACHED_hit]
  note failing = LoadPlugin_fires_iff [of s_bg env_init_fails 7 NOTREACHED_hit]
  note early = LoadPlugin_fires_iff [of placeholder0 env0 7 NOTREACHED_hit]
  note concealed = LoadPlugin_fires_iff [of "s_bg\<lparr>hidden := True\<rparr>" env0 7 NOTREACHED_hit]
  have c1: "LoadPlugin env0 s_bg = ReplacePlugin env0 (Some 7) (emit CreatePluginCalled s_bg)"
    using open_gate [THEN conjunct1] i by simp
  have c2: "\<exists>s'. LoadPlugin env0 s_bg = Inr s' \<and>
         ContainerSetPlugin (Plugin 7) \<in> set (new_effects s_bg s')"
    using open_gate [THEN conjunct2, THEN conjunct1] i by simp
  have c3: "\<exists>s'. LoadPlugin env0 s_bg = Inr s' \<and> PlaceholderDestroy \<in> set (new_effects s_bg s')"
    using open_gate [THEN conjunct2, THEN conjunct2, THEN conjunct1] i by simp
  have c4: "\<not> (\<exists>s'. LoadPlugin env_init_fails s_bg = Inr s' \<and>
           PlaceholderDestroy \<in> set (new_effects s_bg s'))"
    using failing [THEN conjunct2, THEN conjunct2, THEN conjunct1] i by simp
  have c5: "LoadPlugin env0 placeholder0 = Inl NOTREACHED_hit"
    using early [THEN conjunct2, THEN conjunct2, THEN conjunct2, THEN conjunct1] i by simp
  have c6: "LoadPlugin env0 (s_bg\<lparr>hidden := True\<rparr>) = Inr (s_bg\<lparr>hidden := True\<rparr>)"
    using concealed [THEN conjunct2, THEN conjunct2, THEN conjunct2, THEN conjunct2,
        THEN conjunct1] i
    by simp
  have c7: "\<not> (\<exists>s'. load_unless_blocked env0 s_bg = Inr s' \<and>
           ContainerSetPlugin (Plugin 7) \<in> set (new_effects s_bg s'))"
    using open_gate [THEN conjunct2, THEN conjunct2, THEN conjunct2, THEN conjunct2,
        THEN conjunct2] i
    by simp
  from c1 c2 c3 c4 c5 c6 c7 show ?thesis by (intro conjI)
qed

text \<open>
  C1, as the claim states it, fails: with the background-tab blocker set,
  \<open>LoadPlugin\<close> is not a no-op. It creates a plugin, installs and initialises
  it, and destroys the placeholder.
\<close>

theorem LoadPlugin_blocked_counterexample:
  "is_blocked_for_background_tab s_bg \<and>
   map_sum id trace (LoadPlugin env0 s_bg) = Inr (CreatePluginCalled # swap_trace 7) \<and>
   LoadPlugin env0 s_bg \<noteq> Inr s_bg"
  by (simp add: LoadPlugin_def swap_defs input_defs)

subsection \<open>The seed of the heuristic flag\<close>

text \<open>
  C2 says that \<open>heuristic_run_before\<close> starts true when a premade plugin was
  supplied. The code does not do that: the constructor computes the flag from
  the member it has just set to null, so the flag starts false, and
  \<open>SetPremadePlugin\<close>, the only way to supply a premade plugin, leaves it false.
\<close>

theorem heuristic_run_before_not_seeded:
  "heuristic_run_before (LoadablePluginPlaceholder p) = False \<and>
   SetPremadePlugin (Some t) (LoadablePluginPlaceholder p) =
     Inr ((LoadablePluginPlaceholder p)\<lparr>premade_throttler := Some t\<rparr>) \<and>
   heuristic_run_before ((LoadablePluginPlaceholder p)\<lparr>premade_throttler := Some t\<rparr>) = False"
  by (simp add: LoadablePluginPlaceholder_def SetPremadePlugin_def)

subsection \<open>The heuristic flag after a size update\<close>




subsection \<open>The abort paths of the swap\<close>

text \<open>
  C4. \<open>ReplacePlugin\<close> is entered with the placeholder's plugin present (its
  \<^verbatim>\<open>CHECK\<close>) and a target \<open>n\<close>. If the plugin has no container any more,
  the target is destroyed and nothing else happens. If the target needs
  initialisation and initialisation fails, then either the target still has a
  container, the placeholder is put back into the container and the target is
  destroyed, or the container is gone and nothing further happens. Each of the
  three paths returns normally.
\<close>

theorem ReplacePlugin_abort_paths:
  assumes "plugin s = Some p"
  shows "(\<not> container p \<longrightarrow>
            ReplacePlugin h (Some n) s = Inr (emit (WebPluginDestroy n) s)) \<and>
         (container p \<and> (\<forall>t. premade_throttler s = Some t \<longrightarrow> GetWebPlugin t \<noteq> Some n) \<and>
          \<not> initialize h n \<and> new_plugin_container h n \<longrightarrow>
            ReplacePlugin h (Some n) s =
              Inr (emit (WebPluginDestroy n)
                    (emit (ContainerSetPlugin Placeholder)
                      (emit (WebPluginInitialize n)
                        (emit (ContainerSetPlugin (Plugin n)) s))))) \<and>
         (container p \<and> (\<forall>t. premade_throttler s = Some t \<longrightarrow> GetWebPlugin t \<noteq> Some n) \<and>
          \<not> initialize h n \<and> \<not> new_plugin_container h n \<longrightarrow>
            ReplacePlugin h (Some n) s =
              Inr (emit (WebPluginInitialize n) (emit (ContainerSetPlugin (Plugin n)) s)))"
  using assms
  by (auto simp: ReplacePlugin_def Let_def split: option.splits)

theorem ReplacePlugin_abort_paths_witness:
  "ReplacePlugin env0 (Some 7) s_detached = Inr (emit (WebPluginDestroy 7) s_detached) \<and>
   map_sum id trace (ReplacePlugin env_init_fails (Some 7) placeholder0) =
     Inr [ContainerSetPlugin (Plugin 7), WebPluginInitialize 7,
          ContainerSetPlugin Placeholder, WebPluginDestroy 7] \<and>
   map_sum id trace (ReplacePlugin env_init_fails_gone (Some 7) placeholder0) =
     Inr [ContainerSetPlugin (Plugin 7), WebPluginInitialize 7]"
  using ReplacePlugin_abort_paths [of s_detached "WebViewPlugin False" env0 7]
        ReplacePlugin_abort_paths [of placeholder0 "WebViewPlugin True" env_init_fails 7]
        ReplacePlugin_abort_paths [of placeholder0 "WebViewPlugin True" env_init_fails_gone 7]
  by (simp add: input_defs)

subsection \<open>The premade plugin handle\<close>

text \<open>
  C5 asks that a premade plugin still held at teardown be destroyed and that the
  handle be used once. The code does neither on the runs below. First run: a
  placeholder holding a premade plugin, blocked for a background tab, is marked
  essential (the throttler is told, \<open>power_saver_enabled\<close> becomes false,
  nothing is loaded) and then torn down; \<open>PluginDestroyed\<close> destroys nothing
  and the handle stays in the field. Second run: \<open>LoadPlugin\<close> on a placeholder
  that holds a premade plugin while \<open>power_saver_enabled\<close> is true installs
  plugin 1 in the container, and the teardown that ends the swap, entered before
  \<open>LoadPlugin\<close> clears the field, destroys that same plugin.
\<close>

theorem PluginDestroyed_premade_plugin_misused:
  "premade_throttler s_throttled_bg = Some throttler1 \<and>
   map_sum id (\<lambda>s. (trace s, premade_throttler s))
       (and_then (MarkPluginEssential env0 UNTHROTTLE_METHOD_BY_WHITELIST s_throttled_bg)
                 PluginDestroyed) =
     Inr ([ThrottlerMarkPluginEssential UNTHROTTLE_METHOD_BY_WHITELIST], Some throttler1) \<and>
   map_sum id trace (LoadPlugin env0 s_throttled) =
     Inr [ThrottlerSetHiddenForPlaceholder False, ContainerSetPlugin (Plugin 1),
          RestoreTitleText, ContainerInvalidate, ContainerReportGeometry,
          ReplayReceivedData 1, PlaceholderDestroy, WebPluginDestroy 1]"
  by (simp add: MarkPluginEssential_def LoadPlugin_def swap_defs input_defs)

subsection \<open>Marking essential twice\<close>

text \<open>
  C6. With \<open>power_saver_enabled\<close> false, \<open>MarkPluginEssential\<close> returns the
  state it was given: nothing is recorded or delegated, no blocker is cleared and
  the load check is not entered (it would fail on \<open>allow_loading\<close> false). A call
  that returns leaves \<open>power_saver_enabled\<close> false, so a second call directly
  after it changes nothing and records nothing.
\<close>

theorem MarkPluginEssential_noop_when_disabled:
  "(\<not> power_saver_enabled s \<longrightarrow> MarkPluginEssential h m s = Inr s) \<and>
   (MarkPluginEssential h m s = Inr s' \<longrightarrow> MarkPluginEssential h m' s' = Inr s')"
proof -
  have "MarkPluginEssential h m' s' = Inr s'" if "MarkPluginEssential h m s = Inr s'"
    using MarkPluginEssential_disables [OF that] by (simp add: MarkPluginEssential_def)
  then show ?thesis by (simp add: MarkPluginEssential_def)
qed

theorem MarkPluginEssential_noop_when_disabled_witness:
  "MarkPluginEssential env0 UNTHROTTLE_METHOD_BY_WHITELIST placeholder0 = Inr placeholder0 \<and>
   MarkPluginEssential env0 UNTHROTTLE_METHOD_BY_CLICK s_poster = Inr s_poster_loaded \<and>
   MarkPluginEssential env0 UNTHROTTLE_METHOD_BY_SIZE_CHANGE s_poster_loaded = Inr s_poster_loaded"
proof -
  have first: "MarkPluginEssential env0 UNTHROTTLE_METHOD_BY_CLICK s_poster = Inr s_poster_loaded"
    by (simp add: gate_defs swap_defs input_defs)
  have off: "\<not> power_saver_enabled placeholder0"
    by (simp add: input_defs)
  show ?thesis
    using first off
      MarkPluginEssential_noop_when_disabled [of placeholder0 env0 UNTHROTTLE_METHOD_BY_WHITELIST]
      MarkPluginEssential_noop_when_disabled [of s_poster env0 UNTHROTTLE_METHOD_BY_CLICK
        s_poster_loaded UNTHROTTLE_METHOD_BY_SIZE_CHANGE]
    by simp
qed

subsection \<open>A size update that finds the content essential\<close>

text \<open>
  C7, as the code has it. On an update that reaches the poster branch (past the
  early returns, on a placeholder that is not delayed and has the poster blocker
  set) with a classification other than peripheral: \<open>MarkPluginEssential\<close> is
  called with the do-not-record sentinel if \<open>heuristic_run_before\<close> was false
  and with the size-change method otherwise, and the content origin is
  whitelisted exactly when \<open>heuristic_run_before\<close> was false and the
  classification is essential-cross-origin-big.
\<close>

theorem OnUnobscuredRectUpdate_not_peripheral:
  assumes "render_thread h" "plugin s = Some p" "container p" "finished_loading s"
    and "unobscured_rect s \<noteq> r" "\<not> is_delayed_placeholder s"
    and "is_blocked_for_power_saver_poster s"
    and "zoom_adjusted h r = (x, y, width, height)"
    and "GetPeripheralContentStatus h (width, height) = status"
    and "status \<noteq> CONTENT_STATUS_PERIPHERAL"
  shows "OnUnobscuredRectUpdate h r s =
           and_then
             (MarkPluginEssential h
                (if heuristic_run_before s then UNTHROTTLE_METHOD_BY_SIZE_CHANGE
                 else UNTHROTTLE_METHOD_DO_NOT_RECORD)
                (emit (ExecuteScript (resizePoster x y width height))
                   (emit (GetPeripheralContentStatusCalled width height)
                      (s\<lparr>unobscured_rect := r\<rparr>))))
             (\<lambda>s4. Inr ((if \<not> heuristic_run_before s \<and>
                             status = CONTENT_STATUS_ESSENTIAL_CROSS_ORIGIN_BIG
                          then emit WhitelistContentOrigin s4 else s4)
                         \<lparr>heuristic_run_before := True\<rparr>)) \<and>
         (\<forall>s'. OnUnobscuredRectUpdate h r s = Inr s' \<longrightarrow>
            (WhitelistContentOrigin \<in> set (new_effects s s') \<longleftrightarrow>
               \<not> heuristic_run_before s \<and> status = CONTENT_STATUS_ESSENTIAL_CROSS_ORIGIN_BIG))"
proof -
  let ?m = "if heuristic_run_before s then UNTHROTTLE_METHOD_BY_SIZE_CHANGE
            else UNTHROTTLE_METHOD_DO_NOT_RECORD"
  let ?s3 = "emit (ExecuteScript (resizePoster x y width height))
               (emit (GetPeripheralContentStatusCalled width height)
                  (s\<lparr>unobscured_rect := r\<rparr>))"
  let ?k = "\<lambda>s4. Inr ((if \<not> heuristic_run_before s \<and>
                             status = CONTENT_STATUS_ESSENTIAL_CROSS_ORIGIN_BIG
                          then emit WhitelistContentOrigin s4 else s4)
                         \<lparr>heuristic_run_before := True\<rparr>)"
  have eq: "OnUnobscuredRectUpdate h r s = and_then (MarkPluginEssential h ?m ?s3) ?k"
  proof (cases "MarkPluginEssential h ?m ?s3")
    case (Inl e)
    with assms show ?thesis
      by (simp add: OnUnobscuredRectUpdate_def Let_def and_then_def)
  next
    case (Inr s4)
    then have "heuristic_run_before s4 = heuristic_run_before ?s3"
      by (rule MarkPluginEssential_heuristic)
    with Inr assms show ?thesis
      by (simp add: OnUnobscuredRectUpdate_def Let_def and_then_def)
  qed
  have wl: "WhitelistContentOrigin \<in> set (new_effects s s') \<longleftrightarrow>
               \<not> heuristic_run_before s \<and> status = CONTENT_STATUS_ESSENTIAL_CROSS_ORIGIN_BIG"
    if res: "OnUnobscuredRectUpdate h r s = Inr s'" for s'
  proof -
    from res eq obtain s4 where m: "MarkPluginEssential h ?m ?s3 = Inr s4"
      and s': "s' = (if \<not> heuristic_run_before s \<and>
                             status = CONTENT_STATUS_ESSENTIAL_CROSS_ORIGIN_BIG
                          then emit WhitelistContentOrigin s4 else s4)
                         \<lparr>heuristic_run_before := True\<rparr>"
      by (auto simp: and_then_def split: sum.splits)
    from MarkPluginEssential_no_whitelist [OF m]
    obtain new where new: "trace s4 = trace ?s3 @ new" "WhitelistContentOrigin \<notin> set new"
      by blast
    then show ?thesis
      by (auto simp: s' new_effects_def)
  qed
  show ?thesis using eq wl by blast
qed

theorem OnUnobscuredRectUpdate_not_peripheral_witness:
  "map_sum id trace (OnUnobscuredRectUpdate env_big (0, 0, 10, 10) s_poster) =
     Inr ([GetPeripheralContentStatusCalled 10 10, ExecuteScript (resizePoster 0 0 10 10),
           CreatePluginCalled] @ swap_trace 7 @ [WhitelistContentOrigin]) \<and>
   map_sum id trace
       (OnUnobscuredRectUpdate env_big (0, 0, 10, 10) (s_poster\<lparr>heuristic_run_before := True\<rparr>)) =
     Inr ([GetPeripheralContentStatusCalled 10 10, ExecuteScript (resizePoster 0 0 10 10),
           RecordUnthrottleMethodMetric UNTHROTTLE_METHOD_BY_SIZE_CHANGE,
           CreatePluginCalled] @ swap_trace 7)"
  using OnUnobscuredRectUpdate_not_peripheral
          [of env_big s_poster "WebViewPlugin True" "(0, 0, 10, 10)" 0 0 10 10
              CONTENT_STATUS_ESSENTIAL_CROSS_ORIGIN_BIG]
        OnUnobscuredRectUpdate_not_peripheral
          [of env_big "s_poster\<lparr>heuristic_run_before := True\<rparr>" "WebViewPlugin True"
              "(0, 0, 10, 10)" 0 0 10 10 CONTENT_STATUS_ESSENTIAL_CROSS_ORIGIN_BIG]
  by (simp add: input_defs gate_defs swap_defs)

text \<open>
  C7, as the claim states it, fails on a delayed placeholder: with the poster
  blocker set, on the first evaluation and with the classification
  essential-cross-origin-big, the update is handed to
  \<^verbatim>\<open>OnLoadedRectUpdate\<close> and the function returns. Nothing is marked
  essential (\<open>power_saver_enabled\<close> and the poster blocker stay set), nothing is
  whitelisted, and \<open>heuristic_run_before\<close> stays false.
\<close>

theorem OnUnobscuredRectUpdate_delayed_counterexample:
  "is_blocked_for_power_saver_poster s_delayed \<and>
   \<not> heuristic_run_before s_delayed \<and>
   GetPeripheralContentStatus env_big (10, 10) = CONTENT_STATUS_ESSENTIAL_CROSS_ORIGIN_BIG \<and>
   map_sum id
       (\<lambda>s. (trace s, power_saver_enabled s, is_blocked_for_power_saver_poster s,
             heuristic_run_before s))
       (OnUnobscuredRectUpdate env_big (0, 0, 10, 10) s_delayed) =
     Inr ([GetPeripheralContentStatusCalled 10 10,
           OnLoadedRectUpdateCalled (0, 0, 10, 10) CONTENT_STATUS_ESSENTIAL_CROSS_ORIGIN_BIG],
          True, True, False)"
  by (simp add: OnUnobscuredRectUpdate_def and_then_def input_defs)

subsection \<open>The prerendering notification\<close>

text \<open>
  C8. A notification that prerendering became active fails the assertion. A
  notification that it ended, on a placeholder with the prerendering blocker set
  and \<open>allow_loading\<close> true, clears the blocker and goes on to \<open>LoadPlugin\<close> if
  neither of the other two blockers is set; whenever the call returns, the
  blocker is clear.
\<close>

theorem OnSetIsPrerendering_gate:
  "OnSetIsPrerendering h True s = Inl DCHECK_failed \<and>
   (is_blocked_for_prerendering s \<and> allow_loading s \<longrightarrow>
      OnSetIsPrerendering h False s =
        (if is_blocked_for_background_tab s \<or> is_blocked_for_power_saver_poster s
         then Inr (s\<lparr>is_blocked_for_prerendering := False\<rparr>)
         else LoadPlugin h (s\<lparr>is_blocked_for_prerendering := False\<rparr>))) \<and>
   (is_blocked_for_prerendering s \<and> OnSetIsPrerendering h False s = Inr s' \<longrightarrow>
      \<not> is_blocked_for_prerendering s')"
proof -
  have "\<not> is_blocked_for_prerendering s'"
    if "is_blocked_for_prerendering s" "OnSetIsPrerendering h False s = Inr s'"
  proof -
    from that have "load_unless_blocked h (s\<lparr>is_blocked_for_prerendering := False\<rparr>) = Inr s'"
      by (simp add: OnSetIsPrerendering_def)
    from swap_frame_prerendering [OF load_unless_blocked_frame [OF this]]
    show ?thesis by simp
  qed
  then show ?thesis
    by (auto simp: OnSetIsPrerendering_def load_unless_blocked_def LoadingBlocked_def)
qed

theorem OnSetIsPrerendering_gate_witness:
  "OnSetIsPrerendering env0 True s_prerender = Inl DCHECK_failed \<and>
   OnSetIsPrerendering env0 False (s_prerender\<lparr>is_blocked_for_background_tab := True\<rparr>) =
     Inr (s_prerender\<lparr>is_blocked_for_background_tab := True,
                       is_blocked_for_prerendering := False\<rparr>) \<and>
   map_sum id (\<lambda>s. (is_blocked_for_prerendering s, trace s))
       (OnSetIsPrerendering env0 False s_prerender) =
     Inr (False, CreatePluginCalled # swap_trace 7)"
proof -
  have l: "LoadPlugin env0 (s_prerender\<lparr>is_blocked_for_prerendering := False\<rparr>) =
      Inr (s_prerender\<lparr>is_blocked_for_prerendering := False, plugin := None,
             trace := CreatePluginCalled # swap_trace 7\<rparr>)"
    by (simp add: LoadPlugin_def swap_defs input_defs)
  show ?thesis
    using l OnSetIsPrerendering_gate [of env0 s_prerender]
      OnSetIsPrerendering_gate [of env0 "s_prerender\<lparr>is_blocked_for_background_tab := True\<rparr>"]
    by (simp add: input_defs)
qed

subsection \<open>The status message\<close>

text \<open>
  C9, as the code has it. Before \<open>finished_loading\<close> is true \<open>SetMessage\<close> only
  stores the message. Once it is true, \<open>SetMessage\<close> executes
  \<^verbatim>\<open>window.setMessage\<close> at once if the placeholder's plugin still exists,
  and only stores the message if the plugin is gone. \<open>DidFinishLoadingCallback\<close>
  sets \<open>finished_loading\<close> and executes \<^verbatim>\<open>window.setMessage\<close> with the
  stored message exactly when that message is not empty and the plugin exists.
\<close>

theorem SetMessage_applied:
  "(\<not> finished_loading s \<longrightarrow> SetMessage m s = s\<lparr>message := m\<rparr>) \<and>
   (finished_loading s \<and> plugin s \<noteq> None \<longrightarrow>
      SetMessage m s = emit (ExecuteScript (setMessage m)) (s\<lparr>message := m\<rparr>)) \<and>
   (finished_loading s \<and> plugin s = None \<longrightarrow> SetMessage m s = s\<lparr>message := m\<rparr>) \<and>
   (\<not> finished_loading s \<and> m \<noteq> [] \<and> plugin s = Some p \<and> container p \<longrightarrow>
      DidFinishLoadingCallback (SetMessage m s) =
        Inr (emit ContainerReportGeometry
              ((if premade_throttler s \<noteq> None \<and> power_saver_enabled s
                then emit (ThrottlerSetHiddenForPlaceholder True) else id)
                 (emit (ExecuteScript (setMessage m))
                    (s\<lparr>message := m, finished_loading := True\<rparr>))))) \<and>
   (DidFinishLoadingCallback s = Inr s' \<longrightarrow>
      finished_loading s' \<and>
      (ExecuteScript (setMessage (message s)) \<in> set (new_effects s s')
         \<longleftrightarrow> message s \<noteq> [] \<and> plugin s \<noteq> None))"
  by (auto simp: SetMessage_def UpdateMessage_def DidFinishLoadingCallback_def emit_def Let_def
      new_effects_def split: option.splits if_splits)

theorem SetMessage_applied_witness:
  "SetMessage ''paused'' placeholder0 = placeholder0\<lparr>message := ''paused''\<rparr> \<and>
   map_sum id trace (DidFinishLoadingCallback (SetMessage ''paused'' placeholder0)) =
     Inr [ExecuteScript (setMessage ''paused''), ContainerReportGeometry] \<and>
   trace (SetMessage ''paused'' s_finished) = [ExecuteScript (setMessage ''paused'')] \<and>
   SetMessage ''paused'' s_gone = s_gone\<lparr>message := ''paused''\<rparr>"
  using SetMessage_applied [of placeholder0 "''paused''" "WebViewPlugin True" placeholder0]
        SetMessage_applied [of s_finished "''paused''" "WebViewPlugin True" placeholder0]
        SetMessage_applied [of s_gone "''paused''" "WebViewPlugin True" placeholder0]
  by (auto simp: input_defs emit_def)

text \<open>
  C9, as the claim states it, fails: a message set after the placeholder has
  finished loading is not applied when the placeholder's plugin is gone; it is
  stored and no script runs.
\<close>

theorem SetMessage_plugin_gone_counterexample:
  "finished_loading s_gone \<and>
   SetMessage ''paused'' s_gone = s_gone\<lparr>message := ''paused''\<rparr> \<and>
   trace (SetMessage ''paused'' s_gone) = []"
  by (simp add: SetMessage_def UpdateMessage_def input_defs)

subsection \<open>Updates that are ignored\<close>

text \<open>
  C10. Called on the render thread, \<open>OnUnobscuredRectUpdate\<close> returns the state
  it was given, trace included, when the rectangle equals the cached one, when
  the placeholder has not finished loading, or when its plugin is gone: no field
  changes and the host sees no call.
\<close>

theorem OnUnobscuredRectUpdate_early_return:
  assumes "render_thread h"
    and "unobscured_rect s = r \<or> \<not> finished_loading s \<or> plugin s = None"
  shows "OnUnobscuredRectUpdate h r s = Inr s"
  using assms by (auto simp: OnUnobscuredRectUpdate_def split: option.splits)

theorem OnUnobscuredRectUpdate_early_return_witness:
  "OnUnobscuredRectUpdate env0 (0, 0, 0, 0) s_poster = Inr s_poster \<and>
   OnUnobscuredRectUpdate env0 (0, 0, 10, 10) placeholder0 = Inr placeholder0 \<and>
   OnUnobscuredRectUpdate env0 (0, 0, 10, 10) s_gone = Inr s_gone"
  using OnUnobscuredRectUpdate_early_return [of env0 s_poster "(0, 0, 0, 0)"]
        OnUnobscuredRectUpdate_early_return [of env0 placeholder0 "(0, 0, 10, 10)"]
        OnUnobscuredRectUpdate_early_return [of env0 s_gone "(0, 0, 10, 10)"]
  by (simp add: input_defs)

end
